theory Spec2Isabelle
  imports Complex_Main "HOL-Library.Sublist"
begin

section \<open>Data model of \<open>weather_service.py\<close>\<close>

text \<open>Python's \<open>int\<close> is \<open>int\<close>, \<open>str\<close> is \<open>string\<close>, \<open>float\<close> is \<open>pyfloat\<close> below.\<close>

subsection \<open>Python floats\<close>

text \<open>
  A \<open>float\<close> is an IEEE 754 binary64 value: a finite number, an infinity or NaN. A finite
  value is carried as the real number it denotes; the two zeros, which \<open>==\<close> does not tell
  apart, are one value.
\<close>

datatype pyfloat = Finite real | PosInf | NegInf | NaN

text \<open>\<open>pow2 e\<close> is 2 to the power \<open>e\<close>, for an integer \<open>e\<close>.\<close>

definition pow2 :: "int \<Rightarrow> real" where
  "pow2 e = (if 0 \<le> e then 2 ^ nat e else 1 / 2 ^ nat (- e))"

text \<open>The nearest integer, a tie going to the even one.\<close>

definition round_half_even :: "real \<Rightarrow> int" where
  "round_half_even x =
     (let f = \<lfloor>x\<rfloor> in
      if x - of_int f < 1 / 2 then f
      else if 1 / 2 < x - of_int f then f + 1
      else if even f then f else f + 1)"

text \<open>
  Rounding an exact result to binary64, to nearest with ties to even: a number of
  magnitude in \<open>[2^k, 2^(k+1))\<close> is rounded to a multiple of \<open>2^(k-52)\<close> (53 significant
  bits), of \<open>2^(-1074)\<close> at least (the subnormal range), and a result of magnitude \<open>2^1024\<close>
  or more overflows to an infinity.
\<close>

definition round_double :: "real \<Rightarrow> pyfloat" where
  "round_double x =
     (if x = 0 then Finite 0
      else
        let a = \<bar>x\<bar>;
            q = pow2 (max (\<lfloor>log 2 a\<rfloor> - 52) (- 1074));
            v = of_int (round_half_even (a / q)) * q
        in if 2 ^ 1024 \<le> v then (if x < 0 then NegInf else PosInf)
           else Finite (if x < 0 then - v else v))"


text \<open>
  Multiplication and addition of floats: NaN propagates, \<open>0 * inf\<close> and \<open>inf - inf\<close> are
  NaN, and a finite result is rounded. Neither raises.
\<close>

fun float_mul :: "pyfloat \<Rightarrow> pyfloat \<Rightarrow> pyfloat" where
  "float_mul NaN _ = NaN"
| "float_mul _ NaN = NaN"
| "float_mul (Finite x) (Finite y) = round_double (x * y)"
| "float_mul (Finite x) PosInf = (if x = 0 then NaN else if 0 < x then PosInf else NegInf)"
| "float_mul (Finite x) NegInf = (if x = 0 then NaN else if 0 < x then NegInf else PosInf)"
| "float_mul PosInf (Finite y) = (if y = 0 then NaN else if 0 < y then PosInf else NegInf)"
| "float_mul NegInf (Finite y) = (if y = 0 then NaN else if 0 < y then NegInf else PosInf)"
| "float_mul PosInf PosInf = PosInf"
| "float_mul PosInf NegInf = NegInf"
| "float_mul NegInf PosInf = NegInf"
| "float_mul NegInf NegInf = PosInf"

fun float_add :: "pyfloat \<Rightarrow> pyfloat \<Rightarrow> pyfloat" where
  "float_add NaN _ = NaN"
| "float_add _ NaN = NaN"
| "float_add (Finite x) (Finite y) = round_double (x + y)"
| "float_add (Finite x) PosInf = PosInf"
| "float_add (Finite x) NegInf = NegInf"
| "float_add PosInf (Finite y) = PosInf"
| "float_add NegInf (Finite y) = NegInf"
| "float_add PosInf PosInf = PosInf"
| "float_add PosInf NegInf = NaN"
| "float_add NegInf PosInf = NaN"
| "float_add NegInf NegInf = NegInf"

text \<open>The comparisons \<open><\<close>, \<open>>\<close> and \<open><=\<close> of floats: each is false when an operand is NaN.\<close>

fun float_lt :: "pyfloat \<Rightarrow> pyfloat \<Rightarrow> bool" where
  "float_lt NaN _ = False"
| "float_lt _ NaN = False"
| "float_lt (Finite x) (Finite y) = (x < y)"
| "float_lt (Finite x) PosInf = True"
| "float_lt (Finite x) NegInf = False"
| "float_lt PosInf _ = False"
| "float_lt NegInf (Finite y) = True"
| "float_lt NegInf PosInf = True"
| "float_lt NegInf NegInf = False"

definition float_gt :: "pyfloat \<Rightarrow> pyfloat \<Rightarrow> bool" where
  "float_gt a b = float_lt b a"

definition float_le :: "pyfloat \<Rightarrow> pyfloat \<Rightarrow> bool" where
  "float_le a b = (a \<noteq> NaN \<and> b \<noteq> NaN \<and> \<not> float_lt b a)"

subsection \<open>Constants, enumerations and dataclasses\<close>

text \<open>The module constants.\<close>

definition OPEN_METEO_BASE_URL :: string where
  "OPEN_METEO_BASE_URL = ''https://api.open-meteo.com/v1/forecast''"

definition REQUEST_TIMEOUT :: nat where
  "REQUEST_TIMEOUT = 10"

datatype WeatherCondition =
  CLEAR | PARTLY_CLOUDY | OVERCAST | FOG | DRIZZLE | RAIN | SNOW | THUNDERSTORM | UNKNOWN

text \<open>The dictionary \<open>WMO_CODE_MAP\<close>, as its items in source order (the keys are distinct).\<close>

definition WMO_CODE_MAP :: "(int \<times> WeatherCondition) list" where
  "WMO_CODE_MAP =
    [(0, CLEAR), (1, CLEAR), (2, PARTLY_CLOUDY), (3, OVERCAST),
     (45, FOG), (48, FOG),
     (51, DRIZZLE), (53, DRIZZLE), (55, DRIZZLE), (56, DRIZZLE), (57, DRIZZLE),
     (61, RAIN), (63, RAIN), (65, RAIN), (66, RAIN), (67, RAIN),
     (71, SNOW), (73, SNOW), (75, SNOW), (77, SNOW),
     (80, RAIN), (81, RAIN), (82, RAIN),
     (85, SNOW), (86, SNOW),
     (95, THUNDERSTORM), (96, THUNDERSTORM), (99, THUNDERSTORM)]"

text \<open>
  The dataclass \<open>Country\<close> of \<open>weather_report.countries\<close>; its fields and their order are
  those the tests construct it with: \<open>Country("TestLand", "TestCity", 10.0, 20.0,
  "TestContinent")\<close>.
\<close>

record Country =
  name :: string
  capital :: string
  latitude :: pyfloat
  longitude :: pyfloat
  continent :: string

record WeatherData =
  country :: string
  capital :: string
  continent :: string
  temperature_celsius :: pyfloat
  temperature_fahrenheit :: pyfloat
  humidity :: int
  wind_speed_kmh :: pyfloat
  condition :: WeatherCondition
  weather_code :: int

text \<open>
  The exceptions of the model: the module's own \<open>WeatherServiceError\<close> with its message,
  and the built-in \<open>KeyError\<close> (with the missing key), \<open>ValueError\<close> (with its message),
  \<open>TypeError\<close>, \<open>OverflowError\<close> and \<open>ZeroDivisionError\<close>.
\<close>

datatype exn =
  WeatherServiceError string
  | KeyError string
  | ValueError string
  | TypeError
  | OverflowError
  | ZeroDivisionError

definition bind_exn :: "exn + 'a \<Rightarrow> ('a \<Rightarrow> exn + 'b) \<Rightarrow> exn + 'b" where
  "bind_exn r f = (case r of Inl e \<Rightarrow> Inl e | Inr v \<Rightarrow> f v)"

text \<open>
  True division \<open>a / b\<close> of floats: Python raises \<open>ZeroDivisionError\<close> when the divisor is
  zero, whatever the dividend; otherwise NaN propagates, \<open>inf / inf\<close> is NaN, and a finite
  quotient is rounded.
\<close>

fun float_truediv :: "pyfloat \<Rightarrow> pyfloat \<Rightarrow> exn + pyfloat" where
  "float_truediv a (Finite y) =
     (if y = 0 then Inl ZeroDivisionError
      else Inr (case a of
                  Finite x \<Rightarrow> round_double (x / y)
                | PosInf \<Rightarrow> (if 0 < y then PosInf else NegInf)
                | NegInf \<Rightarrow> (if 0 < y then NegInf else PosInf)
                | NaN \<Rightarrow> NaN))"
| "float_truediv a NaN = Inr NaN"
| "float_truediv a b = Inr (case a of Finite x \<Rightarrow> Finite 0 | _ \<Rightarrow> NaN)"

section \<open>The outside world: decoded JSON, built-in coercions, the HTTP library\<close>

text \<open>
  A value as \<open>response.json()\<close> returns it; an object is the list of its items. A number
  written with a fraction or an exponent is a float, and so are the literals \<open>NaN\<close>,
  \<open>Infinity\<close> and \<open>-Infinity\<close>, which Python's decoder accepts.
\<close>

datatype json_value =
  JNull
  | JBool bool
  | JInt int
  | JFloat pyfloat
  | JStr string
  | JArr "json_value list"
  | JObj "(string \<times> json_value) list"

text \<open>
  \<open>str(KeyError(k))\<close> for a key \<open>k\<close> without quotes or escapes in it: the key between
  single quotes. It is applied to the key \<open>current\<close> only.
\<close>

definition py_repr :: "string \<Rightarrow> string" where
  "py_repr s = [CHR 0x27] @ s @ [CHR 0x27]"

text \<open>
  Subscription \<open>d[k]\<close> with a string key: a dict without the key raises \<open>KeyError\<close>, and
  anything that is not a dict raises \<open>TypeError\<close> (a list or a string wants integer
  indices, the other values are not subscriptable).
\<close>

fun py_getitem :: "json_value \<Rightarrow> string \<Rightarrow> exn + json_value" where
  "py_getitem (JObj items) k =
     (case map_of items k of None \<Rightarrow> Inl (KeyError k) | Some v \<Rightarrow> Inr v)"
| "py_getitem _ k = Inl TypeError"

text \<open>
  The built-in \<open>float(x)\<close>. An integer is rounded to the nearest float and raises
  \<open>OverflowError\<close> when it is beyond the float range; \<open>bool\<close> is a subclass of \<open>int\<close>; how
  Python reads a float out of a string is a parameter (\<open>Inl\<close> of the text of the
  \<open>ValueError\<close> where it raises one); \<open>None\<close>, lists and dicts raise \<open>TypeError\<close>.
\<close>

fun py_float :: "(string \<Rightarrow> string + pyfloat) \<Rightarrow> json_value \<Rightarrow> exn + pyfloat" where
  "py_float rd (JInt i) =
     (case round_double (of_int i) of Finite r \<Rightarrow> Inr (Finite r) | _ \<Rightarrow> Inl OverflowError)"
| "py_float rd (JFloat f) = Inr f"
| "py_float rd (JBool b) = Inr (Finite (if b then 1 else 0))"
| "py_float rd (JStr s) = (case rd s of Inl m \<Rightarrow> Inl (ValueError m) | Inr f \<Rightarrow> Inr f)"
| "py_float rd _ = Inl TypeError"

text \<open>
  The built-in \<open>int(x)\<close>. A finite float is truncated towards zero, NaN raises
  \<open>ValueError\<close> and an infinity \<open>OverflowError\<close>; strings are read by a parameter, as for
  \<open>float\<close>.
\<close>

fun py_int :: "(string \<Rightarrow> string + int) \<Rightarrow> json_value \<Rightarrow> exn + int" where
  "py_int rd (JInt i) = Inr i"
| "py_int rd (JFloat (Finite r)) = Inr (if 0 \<le> r then \<lfloor>r\<rfloor> else \<lceil>r\<rceil>)"
| "py_int rd (JFloat NaN) = Inl (ValueError ''cannot convert float NaN to integer'')"
| "py_int rd (JFloat _) = Inl OverflowError"
| "py_int rd (JBool b) = Inr (if b then 1 else 0)"
| "py_int rd (JStr s) = (case rd s of Inl m \<Rightarrow> Inl (ValueError m) | Inr i \<Rightarrow> Inr i)"
| "py_int rd _ = Inl TypeError"

text \<open>
  One call of \<open>requests.get(url, params=..., timeout=...)\<close>, as the program hands it to the
  library.
\<close>

datatype http_method = GET

datatype param_value = PFloat pyfloat | PStr string

record request =
  verb :: http_method
  url :: string
  params :: "(string \<times> param_value) list"
  timeout :: nat

text \<open>
  What the program sees of a response: \<open>raise_for_status()\<close> raises an \<open>HTTPError\<close>
  (\<open>Some\<close> of its text) or returns, and \<open>json()\<close> raises a \<open>ValueError\<close> (\<open>Inl\<close> of its
  text) or returns the decoded body.
\<close>

record response =
  raise_for_status :: "string option"
  json :: "string + json_value"

text \<open>
  The environment of a run. \<open>http_get\<close> answers a request given the requests made before
  it, either by raising a \<open>RequestException\<close> (\<open>Inl\<close> of its text) or with a response.
\<close>

record environment =
  http_get :: "request list \<Rightarrow> request \<Rightarrow> string + response"
  float_of_str :: "string \<Rightarrow> string + pyfloat"
  int_of_str :: "string \<Rightarrow> string + int"

section \<open>The functions of \<open>weather_service.py\<close>\<close>

text \<open>
  \<open>(celsius * 9 / 5) + 32\<close> on a float: the integer literals become the floats 9.0, 5.0
  and 32.0, and each of the three operations rounds its result.
\<close>

definition celsius_to_fahrenheit :: "pyfloat \<Rightarrow> exn + pyfloat" where
  "celsius_to_fahrenheit celsius =
     bind_exn (float_truediv (float_mul celsius (Finite 9)) (Finite 5))
       (\<lambda>q. Inr (float_add q (Finite 32)))"

text \<open>\<open>WMO_CODE_MAP.get(code, WeatherCondition.UNKNOWN)\<close>.\<close>

definition interpret_weather_code :: "int \<Rightarrow> WeatherCondition" where
  "interpret_weather_code code =
     (case map_of WMO_CODE_MAP code of None \<Rightarrow> UNKNOWN | Some c \<Rightarrow> c)"

text \<open>The request \<open>fetch_weather\<close> builds for a country.\<close>

definition weather_request :: "Country \<Rightarrow> request" where
  "weather_request cntry =
     \<lparr>verb = GET,
      url = OPEN_METEO_BASE_URL,
      params =
        [(''latitude'', PFloat (latitude cntry)),
         (''longitude'', PFloat (longitude cntry)),
         (''current'', PStr ''temperature_2m,relative_humidity_2m,weather_code,wind_speed_10m'')],
      timeout = REQUEST_TIMEOUT\<rparr>"

definition failed_to_fetch :: "Country \<Rightarrow> string \<Rightarrow> exn" where
  "failed_to_fetch cntry e =
     WeatherServiceError
       (''Failed to fetch weather for '' @ name cntry @ '' ('' @ Country.capital cntry
          @ ''): '' @ e)"

definition invalid_response :: "Country \<Rightarrow> string \<Rightarrow> exn" where
  "invalid_response cntry e =
     WeatherServiceError
       (''Invalid response for '' @ name cntry @ '' ('' @ Country.capital cntry
          @ ''): '' @ e)"

text \<open>
  \<open>fetch_weather\<close> takes the requests made so far and returns them with its own appended.
  The first \<open>try\<close> turns a \<open>RequestException\<close> of \<open>requests.get\<close> or of
  \<open>raise_for_status\<close> into a \<open>WeatherServiceError\<close>; the second turns a \<open>ValueError\<close> or a
  \<open>KeyError\<close> of \<open>response.json()\<close> and \<open>data["current"]\<close> into one. The coercions that
  follow stand outside both, in the order Python evaluates them: temperature, weather
  code, then (among the constructor's arguments) the Fahrenheit value, humidity and wind
  speed.
\<close>

definition fetch_weather ::
  "environment \<Rightarrow> Country \<Rightarrow> request list \<Rightarrow> (exn + WeatherData) \<times> request list" where
  "fetch_weather env cntry sent =
     (let req = weather_request cntry in
      ((case http_get env sent req of
          Inl e \<Rightarrow> Inl (failed_to_fetch cntry e)
        | Inr response \<Rightarrow>
           (case raise_for_status response of
              Some e \<Rightarrow> Inl (failed_to_fetch cntry e)
            | None \<Rightarrow>
               (case json response of
                  Inl e \<Rightarrow> Inl (invalid_response cntry e)
                | Inr data \<Rightarrow>
                   (case py_getitem data ''current'' of
                      Inl (KeyError k) \<Rightarrow> Inl (invalid_response cntry (py_repr k))
                    | Inl (ValueError e) \<Rightarrow> Inl (invalid_response cntry e)
                    | Inl e \<Rightarrow> Inl e
                    | Inr current \<Rightarrow>
                        bind_exn (bind_exn (py_getitem current ''temperature_2m'')
                                    (py_float (float_of_str env))) (\<lambda>temp_c.
                        bind_exn (bind_exn (py_getitem current ''weather_code'')
                                    (py_int (int_of_str env))) (\<lambda>code.
                        bind_exn (celsius_to_fahrenheit temp_c) (\<lambda>temp_f.
                        bind_exn (bind_exn (py_getitem current ''relative_humidity_2m'')
                                    (py_int (int_of_str env))) (\<lambda>hum.
                        bind_exn (bind_exn (py_getitem current ''wind_speed_10m'')
                                    (py_float (float_of_str env))) (\<lambda>wind.
                        Inr \<lparr>country = name cntry,
                             capital = Country.capital cntry,
                             continent = Country.continent cntry,
                             temperature_celsius = temp_c,
                             temperature_fahrenheit = temp_f,
                             humidity = hum,
                             wind_speed_kmh = wind,
                             condition = interpret_weather_code code,
                             weather_code = code\<rparr>))))))))),
       sent @ [req]))"

text \<open>
  The loop of \<open>fetch_weather_batch\<close>: \<open>results\<close> is the list built so far. Only a
  \<open>WeatherServiceError\<close> is caught; it is raised again when \<open>on_error == "raise"\<close> and
  dropped otherwise. Any other exception leaves the loop as it is.
\<close>

fun batch_loop ::
  "environment \<Rightarrow> string \<Rightarrow> WeatherData list \<Rightarrow> Country list \<Rightarrow> request list
     \<Rightarrow> (exn + WeatherData list) \<times> request list" where
  "batch_loop env on_error results [] sent = (Inr results, sent)"
| "batch_loop env on_error results (cntry # rest) sent =
     (case fetch_weather env cntry sent of
        (Inr weather, sent') \<Rightarrow> batch_loop env on_error (results @ [weather]) rest sent'
      | (Inl (WeatherServiceError m), sent') \<Rightarrow>
          (if on_error = ''raise'' then (Inl (WeatherServiceError m), sent')
           else batch_loop env on_error results rest sent')
      | (Inl e, sent') \<Rightarrow> (Inl e, sent'))"

definition fetch_weather_batch ::
  "environment \<Rightarrow> Country list \<Rightarrow> string \<Rightarrow> request list
     \<Rightarrow> (exn + WeatherData list) \<times> request list" where
  "fetch_weather_batch env countries on_error sent = batch_loop env on_error [] countries sent"

section \<open>\<open>find_extremes\<close> of \<open>report.py\<close>\<close>

text \<open>
  Python's \<open>max(xs, key=f)\<close> and \<open>min(xs, key=f)\<close> on a list with first element \<open>x\<close>: the
  running best is replaced by an element only when \<open>key(element) > key(best)\<close> (for
  \<open>min\<close>: \<open><\<close>) is true. The comparison of the key type is the first argument: \<open>gt\<close> is
  \<open>float_gt\<close> for a float key, which is false on NaN, and \<open>>\<close> for an \<open>int\<close> key.
\<close>

definition py_max :: "('k \<Rightarrow> 'k \<Rightarrow> bool) \<Rightarrow> ('a \<Rightarrow> 'k) \<Rightarrow> 'a \<Rightarrow> 'a list \<Rightarrow> 'a" where
  "py_max gt key x xs = foldl (\<lambda>best y. if gt (key y) (key best) then y else best) x xs"

definition py_min :: "('k \<Rightarrow> 'k \<Rightarrow> bool) \<Rightarrow> ('a \<Rightarrow> 'k) \<Rightarrow> 'a \<Rightarrow> 'a list \<Rightarrow> 'a" where
  "py_min lt key x xs = foldl (\<lambda>best y. if lt (key y) (key best) then y else best) x xs"

text \<open>The returned dict, as its items in insertion order; \<open>None\<close> is Python's \<open>None\<close>.\<close>

fun find_extremes :: "WeatherData list \<Rightarrow> (string \<times> WeatherData option) list" where
  "find_extremes [] =
     [(''hottest'', None), (''coldest'', None), (''most_humid'', None), (''windiest'', None)]"
| "find_extremes (w # ws) =
     [(''hottest'', Some (py_max float_gt temperature_celsius w ws)),
      (''coldest'', Some (py_min float_lt temperature_celsius w ws)),
      (''most_humid'', Some (py_max (>) humidity w ws)),
      (''windiest'', Some (py_max float_gt wind_speed_kmh w ws))]"

section \<open>The code-to-condition table\<close>

text \<open>The table of the specification, read row by row, with its default row last.\<close>

definition condition_table :: "int \<Rightarrow> WeatherCondition" where
  "condition_table code =
     (if code = 0 \<or> code = 1 then CLEAR
      else if code = 2 then PARTLY_CLOUDY
      else if code = 3 then OVERCAST
      else if code = 45 \<or> code = 48 then FOG
      else if code = 51 \<or> code = 53 \<or> code = 55 \<or> code = 56 \<or> code = 57 then DRIZZLE
      else if code = 61 \<or> code = 63 \<or> code = 65 \<or> code = 66 \<or> code = 67
              \<or> code = 80 \<or> code = 81 \<or> code = 82 then RAIN
      else if code = 71 \<or> code = 73 \<or> code = 75 \<or> code = 77 \<or> code = 85 \<or> code = 86 then SNOW
      else if code = 95 \<or> code = 96 \<or> code = 99 then THUNDERSTORM
      else UNKNOWN)"

section \<open>Fixtures of the test suite\<close>

text \<open>\<open>SAMPLE_COUNTRY\<close> and \<open>SAMPLE_API_RESPONSE\<close> of \<open>tests/test_weather_service.py\<close>.\<close>

definition SAMPLE_COUNTRY :: Country where
  "SAMPLE_COUNTRY =
     \<lparr>name = ''TestLand'', Country.capital = ''TestCity'', latitude = Finite 10,
      longitude = Finite 20,
      Country.continent = ''TestContinent''\<rparr>"

definition SAMPLE_API_RESPONSE :: json_value where
  "SAMPLE_API_RESPONSE =
     JObj [(''current'',
       JObj [(''temperature_2m'', JFloat (Finite 25)),
             (''relative_humidity_2m'', JInt 60),
             (''weather_code'', JInt 0),
             (''wind_speed_10m'', JFloat (Finite 15.5))])]"

text \<open>The reading \<open>test_successful_fetch\<close> expects for them.\<close>

definition SAMPLE_WEATHER :: WeatherData where
  "SAMPLE_WEATHER =
     \<lparr>country = ''TestLand'', capital = ''TestCity'', continent = ''TestContinent'',
      temperature_celsius = Finite 25, temperature_fahrenheit = Finite 77, humidity = 60,
      wind_speed_kmh = Finite 15.5, condition = CLEAR, weather_code = 0\<rparr>"

text \<open>A body that lacks \<open>temperature_2m\<close>, and one whose humidity is JSON \<open>null\<close>.\<close>

definition MISSING_TEMPERATURE_RESPONSE :: json_value where
  "MISSING_TEMPERATURE_RESPONSE =
     JObj [(''current'',
       JObj [(''relative_humidity_2m'', JInt 60),
             (''weather_code'', JInt 0),
             (''wind_speed_10m'', JFloat (Finite 15.5))])]"

definition NULL_HUMIDITY_RESPONSE :: json_value where
  "NULL_HUMIDITY_RESPONSE =
     JObj [(''current'',
       JObj [(''temperature_2m'', JFloat (Finite 25)),
             (''relative_humidity_2m'', JNull),
             (''weather_code'', JInt 0),
             (''wind_speed_10m'', JFloat (Finite 15.5))])]"

text \<open>A body whose temperature is the literal \<open>NaN\<close>.\<close>

definition NAN_TEMPERATURE_RESPONSE :: json_value where
  "NAN_TEMPERATURE_RESPONSE =
     JObj [(''current'',
       JObj [(''temperature_2m'', JFloat NaN),
             (''relative_humidity_2m'', JInt 60),
             (''weather_code'', JInt 0),
             (''wind_speed_10m'', JFloat (Finite 15.5))])]"

text \<open>No fixture holds a number in a string: reading one out of a string always fails.\<close>

definition no_number :: "string \<Rightarrow> string + 'a" where
  "no_number s = Inl ''not a number''"

definition ok_response :: "json_value \<Rightarrow> response" where
  "ok_response body = \<lparr>raise_for_status = None, json = Inr body\<rparr>"

text \<open>A provider that always answers with status 200 and the given body.\<close>

definition env_with_body :: "json_value \<Rightarrow> environment" where
  "env_with_body body =
     \<lparr>http_get = (\<lambda>sent req. Inr (ok_response body)),
      float_of_str = no_number, int_of_str = no_number\<rparr>"

text \<open>A network that is down (\<open>test_network_error_raises\<close>).\<close>

definition env_network_error :: environment where
  "env_network_error =
     \<lparr>http_get = (\<lambda>sent req. Inl ''Network error''),
      float_of_str = no_number, int_of_str = no_number\<rparr>"

text \<open>A provider that answers the first request and is unreachable from then on.\<close>

definition env_second_fails :: environment where
  "env_second_fails =
     \<lparr>http_get = (\<lambda>sent req. if sent = [] then Inr (ok_response SAMPLE_API_RESPONSE)
                                else Inl ''Network error''),
      float_of_str = no_number, int_of_str = no_number\<rparr>"

text \<open>
  A reading as \<open>make_weather\<close> of \<open>tests/test_report.py\<close> builds it, with the arguments the
  tests vary; the Fahrenheit value, which the tests compute from the Celsius one, is an
  argument here.
\<close>

definition make_weather :: "string \<Rightarrow> pyfloat \<Rightarrow> pyfloat \<Rightarrow> int \<Rightarrow> pyfloat \<Rightarrow> WeatherData" where
  "make_weather cname temp_c temp_f hum wind =
     \<lparr>country = cname, capital = ''TestCity'', continent = ''TestContinent'',
      temperature_celsius = temp_c, temperature_fahrenheit = temp_f,
      humidity = hum, wind_speed_kmh = wind, condition = CLEAR, weather_code = 0\<rparr>"

text \<open>A reading whose temperature is NaN, and one of 10 degrees.\<close>

definition NAN_READING :: WeatherData where
  "NAN_READING = make_weather ''Nowhere'' NaN NaN 60 (Finite 5)"

definition WARM_READING :: WeatherData where
  "WARM_READING = make_weather ''Warm'' (Finite 10) (Finite 50) 60 (Finite 5)"

section \<open>Lemmas about floats\<close>



lemma round_half_even_of_int: "round_half_even (of_int k) = k"
  by (simp add: round_half_even_def)


text \<open>Every integer of magnitude below \<open>2^53\<close> is a float.\<close>

lemma round_double_of_int:
  assumes "\<bar>n\<bar> < 2 ^ 53"
  shows "round_double (of_int n) = Finite (of_int n)"
proof (cases "n = 0")
  case True
  then show ?thesis by (simp add: round_double_def)
next
  case False
  define a where "a = \<bar>real_of_int n\<bar>"
  have an: "a = of_int \<bar>n\<bar>" by (simp add: a_def)
  have "1 \<le> \<bar>n\<bar>" using False by linarith
  then have a1: "1 \<le> a" unfolding an by linarith
  have "real_of_int \<bar>n\<bar> < real_of_int (2 ^ 53)" using assms by linarith
  then have a2: "a < 2 ^ 53" unfolding an by simp
  define L where "L = \<lfloor>log 2 a\<rfloor>"
  have "0 \<le> log 2 a" using a1 by simp
  then have L0: "0 \<le> L" by (simp add: L_def)
  have "log 2 a < log 2 (2 ^ 53)" using a1 a2 by (subst log_less_cancel_iff) auto
  moreover have "log 2 ((2 :: real) ^ 53) = 53" by (subst log_nat_power) simp_all
  ultimately have "log 2 a < 53" by (simp only:)
  then have L52: "L \<le> 52" unfolding L_def by linarith
  define j where "j = nat (52 - L)"
  have q: "pow2 (max (L - 52) (- 1074)) = 1 / 2 ^ j"
    using L0 L52 by (auto simp: pow2_def j_def)
  have r: "a / (1 / 2 ^ j) = of_int (\<bar>n\<bar> * 2 ^ j)" by (simp add: an)
  have v: "of_int (round_half_even (a / (1 / 2 ^ j))) * (1 / 2 ^ j) = a"
    unfolding r round_half_even_of_int by (simp add: an)
  have "(2 :: real) ^ 53 \<le> 2 ^ 1024" by (rule power_increasing) simp_all
  then have big: "\<not> (2 :: real) ^ 1024 \<le> a" using a2 by linarith
  have "round_double (of_int n) = Finite (if real_of_int n < 0 then - a else a)"
    unfolding round_double_def Let_def a_def [symmetric] L_def [symmetric] q v
    using False big by simp
  then show ?thesis by (simp add: a_def)
qed

lemma round_double_numeral:
  "\<bar>numeral n :: int\<bar> < 2 ^ 53 \<Longrightarrow> round_double (numeral n) = Finite (numeral n)"
  using round_double_of_int [of "numeral n"] by simp




lemma round_double_not_NaN: "round_double x \<noteq> NaN"
  by (simp add: round_double_def Let_def)

lemma celsius_to_fahrenheit_NaN: "celsius_to_fahrenheit c = Inr NaN \<longleftrightarrow> c = NaN"
proof (cases c)
  case (Finite x)
  have "\<And>y. float_add (round_double y) (Finite 32) \<noteq> NaN"
  proof -
    fix y show "float_add (round_double y) (Finite 32) \<noteq> NaN"
      using round_double_not_NaN [of y] round_double_not_NaN
      by (cases "round_double y") simp_all
  qed
  moreover have "\<And>y. round_double y = PosInf \<or> round_double y = NegInf
      \<or> (\<exists>z. round_double y = Finite z)"
  proof -
    fix y show "round_double y = PosInf \<or> round_double y = NegInf
      \<or> (\<exists>z. round_double y = Finite z)"
      using round_double_not_NaN [of y] by (cases "round_double y") simp_all
  qed
  ultimately show ?thesis
    using Finite round_double_not_NaN
    by (auto simp: celsius_to_fahrenheit_def bind_exn_def split: pyfloat.splits)
next
  case PosInf
  then show ?thesis by (simp add: celsius_to_fahrenheit_def bind_exn_def)
next
  case NegInf
  then show ?thesis by (simp add: celsius_to_fahrenheit_def bind_exn_def)
next
  case NaN
  then show ?thesis by (simp add: celsius_to_fahrenheit_def bind_exn_def)
qed

lemma celsius_to_fahrenheit_25: "celsius_to_fahrenheit (Finite 25) = Inr (Finite 77)"
  by (simp add: celsius_to_fahrenheit_def bind_exn_def round_double_numeral)

text \<open>Away from NaN the comparisons are those of a linear order.\<close>

lemma float_gt_iff_not_le: "a \<noteq> NaN \<Longrightarrow> b \<noteq> NaN \<Longrightarrow> float_gt a b \<longleftrightarrow> \<not> float_le a b"
  by (simp add: float_gt_def float_le_def)

lemma float_le_linear: "a \<noteq> NaN \<Longrightarrow> b \<noteq> NaN \<Longrightarrow> float_le a b \<or> float_le b a"
  by (cases a; cases b) (auto simp: float_le_def)

lemma float_le_trans: "float_le a b \<Longrightarrow> float_le b c \<Longrightarrow> float_le a c"
  by (cases a; cases b; cases c) (auto simp: float_le_def)

lemma float_le_NaN: "\<not> float_le a NaN" "\<not> float_le NaN a"
  by (simp_all add: float_le_def)

section \<open>Lemmas about the batch loop\<close>

lemma fetch_weather_sent: "snd (fetch_weather env c sent) = sent @ [weather_request c]"
  by (simp add: fetch_weather_def Let_def)

text \<open>The list built so far is only ever extended.\<close>

lemma batch_loop_acc:
  "batch_loop env p acc cs sent =
     (case batch_loop env p [] cs sent of
        (Inr ws, s) \<Rightarrow> (Inr (acc @ ws), s)
      | (Inl e, s) \<Rightarrow> (Inl e, s))"
proof (induction cs arbitrary: acc sent)
  case Nil
  show ?case by simp
next
  case (Cons c cs)
  obtain r s where f: "fetch_weather env c sent = (r, s)"
    by (cases "fetch_weather env c sent")
  show ?case
  proof (cases r)
    case (Inr w)
    have a: "batch_loop env p acc (c # cs) sent = batch_loop env p (acc @ [w]) cs s"
      and b: "batch_loop env p [] (c # cs) sent = batch_loop env p [w] cs s"
      using f Inr by simp_all
    show ?thesis
      unfolding a b Cons.IH [of "acc @ [w]" s] Cons.IH [of "[w]" s]
      by (simp split: prod.splits sum.splits)
  next
    case (Inl e)
    show ?thesis
    proof (cases "\<exists>m. e = WeatherServiceError m \<and> p \<noteq> ''raise''")
      case True
      then have a: "batch_loop env p acc (c # cs) sent = batch_loop env p acc cs s"
        and b: "batch_loop env p [] (c # cs) sent = batch_loop env p [] cs s"
        using f Inl by auto
      show ?thesis unfolding a b by (rule Cons.IH)
    next
      case False
      then have a: "batch_loop env p acc (c # cs) sent = (Inl e, s)"
        and b: "batch_loop env p [] (c # cs) sent = (Inl e, s)"
        using f Inl by (cases e; simp)+
      show ?thesis unfolding a b by simp
    qed
  qed
qed

text \<open>One step of the batch, by what the fetch of the first country does.\<close>

lemma fetch_weather_batch_cons_success:
  assumes "fetch_weather env c sent = (Inr w, sent')"
  shows "fetch_weather_batch env (c # cs) p sent =
     (case fetch_weather_batch env cs p sent' of
        (Inr ws, s) \<Rightarrow> (Inr (w # ws), s)
      | (Inl e, s) \<Rightarrow> (Inl e, s))"
  using assms batch_loop_acc [of env p "[w]" cs sent']
  by (simp add: fetch_weather_batch_def split: prod.splits sum.splits)

lemma fetch_weather_batch_cons_skipped:
  assumes "fetch_weather env c sent = (Inl (WeatherServiceError m), sent')"
    and "p \<noteq> ''raise''"
  shows "fetch_weather_batch env (c # cs) p sent = fetch_weather_batch env cs p sent'"
  using assms by (simp add: fetch_weather_batch_def)

lemma fetch_weather_batch_cons_escapes:
  assumes "fetch_weather env c sent = (Inl e, sent')"
    and "\<And>m. e \<noteq> WeatherServiceError m"
  shows "fetch_weather_batch env (c # cs) p sent = (Inl e, sent')"
  using assms by (cases e) (auto simp: fetch_weather_batch_def)

text \<open>
  When no fetch can fail with anything but a \<open>WeatherServiceError\<close>, the batch under a
  policy other than \<open>"raise"\<close> returns a list.
\<close>

lemma batch_loop_skip_returns:
  assumes "\<And>c sent e. fst (fetch_weather env c sent) = Inl e \<Longrightarrow> \<exists>m. e = WeatherServiceError m"
    and "p \<noteq> ''raise''"
  shows "\<exists>ws. fst (batch_loop env p acc cs sent) = Inr ws"
proof (induction cs arbitrary: acc sent)
  case Nil
  show ?case by simp
next
  case (Cons c cs)
  obtain r s where f: "fetch_weather env c sent = (r, s)"
    by (cases "fetch_weather env c sent")
  show ?case
  proof (cases r)
    case (Inr w)
    then show ?thesis using f Cons.IH [of "acc @ [w]" s] by simp
  next
    case (Inl e)
    then obtain m where "e = WeatherServiceError m" using assms(1) [of c sent e] f by auto
    then show ?thesis using f Inl assms(2) Cons.IH [of acc s] by simp
  qed
qed

lemma batch_loop_policy:
  "p \<noteq> ''raise'' \<Longrightarrow> batch_loop env p acc cs sent = batch_loop env ''skip'' acc cs sent"
  by (induction cs arbitrary: acc sent) (auto split: prod.splits sum.splits exn.splits)

text \<open>A batch that returns a list has made one request per country, in order.\<close>

lemma batch_loop_sent_ok:
  "batch_loop env p acc cs sent = (Inr ws, sent') \<Longrightarrow> sent' = sent @ map weather_request cs"
proof (induction cs arbitrary: acc sent)
  case Nil
  then show ?case by simp
next
  case (Cons c cs)
  obtain r s where f: "fetch_weather env c sent = (r, s)"
    by (cases "fetch_weather env c sent")
  have s: "s = sent @ [weather_request c]"
    using fetch_weather_sent [of env c sent] f by simp
  have "\<exists>acc'. batch_loop env p acc' cs s = (Inr ws, sent')"
    using Cons.prems f by (auto split: sum.splits exn.splits if_splits)
  then obtain acc' where "batch_loop env p acc' cs s = (Inr ws, sent')" ..
  then have "sent' = s @ map weather_request cs" by (rule Cons.IH)
  then show ?case by (simp add: s)
qed

text \<open>Under \<open>"raise"\<close>, a batch that returns a list has a reading for every country.\<close>

lemma batch_loop_raise_length:
  "batch_loop env ''raise'' acc cs sent = (Inr ws, sent') \<Longrightarrow>
     length ws = length acc + length cs"
proof (induction cs arbitrary: acc sent)
  case Nil
  then show ?case by auto
next
  case (Cons c cs)
  obtain r s where f: "fetch_weather env c sent = (r, s)"
    by (cases "fetch_weather env c sent")
  show ?case
  proof (cases r)
    case (Inr w)
    then have "batch_loop env ''raise'' (acc @ [w]) cs s = (Inr ws, sent')"
      using Cons.prems f by simp
    then have "length ws = length (acc @ [w]) + length cs" by (rule Cons.IH)
    then show ?thesis by simp
  next
    case (Inl e)
    then have "batch_loop env ''raise'' acc (c # cs) sent = (Inl e, s)"
      using f by (cases e) simp_all
    then show ?thesis using Cons.prems by simp
  qed
qed

lemma batch_loop_raise_first_failure:
  assumes "batch_loop env ''raise'' acc pre sent = (Inr ws, sent1)"
    and "fetch_weather env c sent1 = (Inl e, sent2)"
  shows "batch_loop env ''raise'' acc (pre @ c # post) sent = (Inl e, sent2)"
  using assms
proof (induction pre arbitrary: acc sent)
  case Nil
  then show ?case by (cases e) auto
next
  case (Cons a pre)
  then show ?case
    by (auto split: prod.splits sum.splits exn.splits if_splits)
qed

text \<open>
  Conversely, a batch under \<open>"raise"\<close> that ends in an exception has a first country whose
  fetch raised it, every country before it having been fetched with success.
\<close>

lemma batch_loop_raise_decompose:
  assumes "batch_loop env ''raise'' acc cs sent = (Inl e, sent')"
  shows "\<exists>pre c post ws sent1. cs = pre @ c # post
     \<and> batch_loop env ''raise'' acc pre sent = (Inr ws, sent1)
     \<and> fetch_weather env c sent1 = (Inl e, sent')"
  using assms
proof (induction cs arbitrary: acc sent)
  case Nil
  then show ?case by simp
next
  case (Cons a cs)
  obtain r s where f: "fetch_weather env a sent = (r, s)"
    by (cases "fetch_weather env a sent")
  show ?case
  proof (cases r)
    case (Inr w)
    then have "batch_loop env ''raise'' (acc @ [w]) cs s = (Inl e, sent')"
      using Cons.prems f by simp
    then obtain pre c post ws sent1 where d: "cs = pre @ c # post"
      "batch_loop env ''raise'' (acc @ [w]) pre s = (Inr ws, sent1)"
      "fetch_weather env c sent1 = (Inl e, sent')"
      using Cons.IH by blast
    have "a # cs = (a # pre) @ c # post" using d(1) by simp
    moreover have "batch_loop env ''raise'' acc (a # pre) sent = (Inr ws, sent1)"
      using d(2) f Inr by simp
    ultimately show ?thesis using d(3) by blast
  next
    case (Inl e')
    then have "batch_loop env ''raise'' acc (a # cs) sent = (Inl e', s)"
      using f by (cases e') simp_all
    then have "e' = e" "s = sent'" using Cons.prems by simp_all
    then have "a # cs = [] @ a # cs
       \<and> batch_loop env ''raise'' acc [] sent = (Inr acc, sent)
       \<and> fetch_weather env a sent = (Inl e, sent')"
      using f Inl by simp
    then show ?thesis by blast
  qed
qed

section \<open>Lemmas about \<open>max\<close> and \<open>min\<close> with a key\<close>

lemma py_max_in: "py_max gt key x xs \<in> set (x # xs)"
  unfolding py_max_def by (induction xs arbitrary: x) auto

lemma py_min_in: "py_min lt key x xs \<in> set (x # xs)"
  unfolding py_min_def by (induction xs arbitrary: x) auto

text \<open>
  The fold that both run, on keys among which \<open>le\<close> is a linear preorder and \<open>better a b\<close>
  says that \<open>a\<close> is not \<open>le b\<close>: every element is \<open>le\<close> the result.
\<close>

lemma foldl_best_bound:
  assumes better: "\<And>a b. a \<in> K \<Longrightarrow> b \<in> K \<Longrightarrow> better a b \<longleftrightarrow> \<not> le a b"
    and linear: "\<And>a b. a \<in> K \<Longrightarrow> b \<in> K \<Longrightarrow> le a b \<or> le b a"
    and trans: "\<And>a b c. le a b \<Longrightarrow> le b c \<Longrightarrow> le a c"
    and keys: "\<And>y. y \<in> set (x # xs) \<Longrightarrow> key y \<in> K"
    and y: "y \<in> set (x # xs)"
  shows "le (key y) (key (foldl (\<lambda>best z. if better (key z) (key best) then z else best) x xs))"
  using keys y
proof (induction xs arbitrary: x y)
  case Nil
  then show ?case using linear [of "key x" "key x"] by auto
next
  case (Cons a xs)
  let ?f = "\<lambda>best z. if better (key z) (key best) then z else best"
  let ?x' = "?f x a"
  have ka: "key a \<in> K" and kx: "key x \<in> K" using Cons.prems(1) by simp_all
  have x': "?x' = a \<or> ?x' = x" by simp
  have k': "\<And>z. z \<in> set (?x' # xs) \<Longrightarrow> key z \<in> K"
    using Cons.prems(1) by auto
  have bound: "\<And>z. z \<in> set (?x' # xs) \<Longrightarrow> le (key z) (key (foldl ?f ?x' xs))"
    by (rule Cons.IH [of ?x']) (use k' in blast)+
  have top: "le (key ?x') (key (foldl ?f ?x' xs))" using bound [of ?x'] by simp
  have lx: "le (key x) (key ?x')"
    using better [OF ka kx] linear [OF ka kx] linear [OF kx kx] by auto
  have la: "le (key a) (key ?x')"
    using better [OF ka kx] linear [OF ka ka] by auto
  have "y = x \<or> y = a \<or> y \<in> set xs" using Cons.prems(2) by auto
  then show ?case
  proof (elim disjE)
    assume "y = x"
    then show ?thesis using trans [OF lx top] by simp
  next
    assume "y = a"
    then show ?thesis using trans [OF la top] by simp
  next
    assume "y \<in> set xs"
    then show ?thesis using bound [of y] by simp
  qed
qed

lemma py_max_float_ge:
  assumes "\<And>z. z \<in> set (x # xs) \<Longrightarrow> key z \<noteq> NaN" and "y \<in> set (x # xs)"
  shows "float_le (key y) (key (py_max float_gt key x xs))"
  unfolding py_max_def
proof (rule foldl_best_bound [where K = "{f. f \<noteq> NaN}" and le = float_le])
  show "\<And>a b. a \<in> {f. f \<noteq> NaN} \<Longrightarrow> b \<in> {f. f \<noteq> NaN} \<Longrightarrow>
      float_gt a b \<longleftrightarrow> \<not> float_le a b"
    by (simp add: float_gt_iff_not_le)
  show "\<And>a b. a \<in> {f. f \<noteq> NaN} \<Longrightarrow> b \<in> {f. f \<noteq> NaN} \<Longrightarrow> float_le a b \<or> float_le b a"
    by (simp add: float_le_linear)
  show "\<And>a b c. float_le a b \<Longrightarrow> float_le b c \<Longrightarrow> float_le a c"
    by (rule float_le_trans)
  show "\<And>z. z \<in> set (x # xs) \<Longrightarrow> key z \<in> {f. f \<noteq> NaN}"
    using assms(1) by simp
  show "y \<in> set (x # xs)" by (rule assms(2))
qed

lemma py_min_float_le:
  assumes "\<And>z. z \<in> set (x # xs) \<Longrightarrow> key z \<noteq> NaN" and "y \<in> set (x # xs)"
  shows "float_le (key (py_min float_lt key x xs)) (key y)"
  unfolding py_min_def
proof (rule foldl_best_bound [where K = "{f. f \<noteq> NaN}" and le = "\<lambda>a b. float_le b a"])
  show "\<And>a b. a \<in> {f. f \<noteq> NaN} \<Longrightarrow> b \<in> {f. f \<noteq> NaN} \<Longrightarrow>
      float_lt a b \<longleftrightarrow> \<not> float_le b a"
    by (simp add: float_le_def)
  show "\<And>a b. a \<in> {f. f \<noteq> NaN} \<Longrightarrow> b \<in> {f. f \<noteq> NaN} \<Longrightarrow> float_le b a \<or> float_le a b"
    by (simp add: float_le_linear)
  show "\<And>a b c. float_le b a \<Longrightarrow> float_le c b \<Longrightarrow> float_le c a"
    using float_le_trans by blast
  show "\<And>z. z \<in> set (x # xs) \<Longrightarrow> key z \<in> {f. f \<noteq> NaN}"
    using assms(1) by simp
  show "y \<in> set (x # xs)" by (rule assms(2))
qed

lemma py_max_int_ge:
  assumes "y \<in> set (x # xs)"
  shows "(key y :: int) \<le> key (py_max (>) key x xs)"
  unfolding py_max_def
  by (rule foldl_best_bound [where K = UNIV and le = "(\<le>)"]) (use assms in auto)

section \<open>Evaluating the fixtures\<close>


lemma fetch_weather_missing_temperature:
  "fetch_weather (env_with_body MISSING_TEMPERATURE_RESPONSE) SAMPLE_COUNTRY sent =
     (Inl (KeyError ''temperature_2m''), sent @ [weather_request SAMPLE_COUNTRY])"
  by (simp add: fetch_weather_def env_with_body_def ok_response_def
      MISSING_TEMPERATURE_RESPONSE_def bind_exn_def)

lemma fetch_weather_null_humidity:
  "fetch_weather (env_with_body NULL_HUMIDITY_RESPONSE) SAMPLE_COUNTRY sent =
     (Inl TypeError, sent @ [weather_request SAMPLE_COUNTRY])"
  by (simp add: fetch_weather_def env_with_body_def ok_response_def
      NULL_HUMIDITY_RESPONSE_def bind_exn_def celsius_to_fahrenheit_25)

text \<open>A temperature of \<open>NaN\<close> in the body comes back as a reading.\<close>

lemma fetch_weather_nan_temperature:
  "fetch_weather (env_with_body NAN_TEMPERATURE_RESPONSE) SAMPLE_COUNTRY sent =
     (Inr (SAMPLE_WEATHER\<lparr>temperature_celsius := NaN, temperature_fahrenheit := NaN\<rparr>),
      sent @ [weather_request SAMPLE_COUNTRY])"
  by (simp add: fetch_weather_def env_with_body_def ok_response_def
      NAN_TEMPERATURE_RESPONSE_def SAMPLE_COUNTRY_def SAMPLE_WEATHER_def bind_exn_def
      celsius_to_fahrenheit_def interpret_weather_code_def WMO_CODE_MAP_def)

lemma fetch_weather_second_fails_first:
  "fetch_weather env_second_fails SAMPLE_COUNTRY [] =
     (Inr SAMPLE_WEATHER, [weather_request SAMPLE_COUNTRY])"
  by (simp add: fetch_weather_def env_second_fails_def ok_response_def SAMPLE_API_RESPONSE_def
      SAMPLE_COUNTRY_def SAMPLE_WEATHER_def bind_exn_def celsius_to_fahrenheit_25
      interpret_weather_code_def WMO_CODE_MAP_def)

lemma fetch_weather_second_fails_later:
  "sent \<noteq> [] \<Longrightarrow> fetch_weather env_second_fails SAMPLE_COUNTRY sent =
     (Inl (failed_to_fetch SAMPLE_COUNTRY ''Network error''),
      sent @ [weather_request SAMPLE_COUNTRY])"
  by (simp add: fetch_weather_def env_second_fails_def)

section \<open>Properties of the weather client\<close>

lemma condition_table_negative: "code < 0 \<Longrightarrow> condition_table code = UNKNOWN"
  by (simp add: condition_table_def)

text \<open>
  C4. \<open>interpret_weather_code\<close> is defined on every integer and agrees with the
  specification's table: each listed code has the condition of its row, and every other
  code, negative ones included, is \<open>UNKNOWN\<close>.
\<close>

theorem interpret_weather_code_table:
  "interpret_weather_code code = condition_table code"
  by (simp add: interpret_weather_code_def WMO_CODE_MAP_def condition_table_def)

theorem interpret_weather_code_table_witness:
  "interpret_weather_code 63 = RAIN \<and> interpret_weather_code 73 = SNOW
   \<and> interpret_weather_code 0 = CLEAR \<and> interpret_weather_code 999 = UNKNOWN
   \<and> interpret_weather_code (- 1) = UNKNOWN"
  using interpret_weather_code_table [of 63] interpret_weather_code_table [of 73]
    interpret_weather_code_table [of 0] interpret_weather_code_table [of 999]
    interpret_weather_code_table [of "- 1"]
  by (simp add: condition_table_def)




text \<open>
  C8. Whatever the provider does, one call of \<open>fetch_weather\<close> adds exactly one request to
  those made before: a GET to the fixed base URL, with the country's latitude and
  longitude, \<open>current\<close> set to the four comma-joined field names, and a timeout of 10
  seconds. That holds after any earlier requests, so a second call for the same country
  sends the request again (no caching), and a failed call has sent one request (no retry).
\<close>

theorem fetch_weather_one_request:
  "snd (fetch_weather env cntry sent) =
     sent @ [\<lparr>verb = GET,
              url = ''https://api.open-meteo.com/v1/forecast'',
              params =
                [(''latitude'', PFloat (latitude cntry)),
                 (''longitude'', PFloat (longitude cntry)),
                 (''current'',
                  PStr ''temperature_2m,relative_humidity_2m,weather_code,wind_speed_10m'')],
              timeout = 10\<rparr>]
   \<and> length (snd (fetch_weather env cntry (snd (fetch_weather env cntry sent)))) =
       length sent + 2"
  by (simp add: fetch_weather_def Let_def weather_request_def OPEN_METEO_BASE_URL_def
      REQUEST_TIMEOUT_def)

theorem fetch_weather_one_request_witness:
  "snd (fetch_weather env_network_error SAMPLE_COUNTRY []) =
     [\<lparr>verb = GET,
       url = ''https://api.open-meteo.com/v1/forecast'',
       params =
         [(''latitude'', PFloat (Finite 10)),
          (''longitude'', PFloat (Finite 20)),
          (''current'',
           PStr ''temperature_2m,relative_humidity_2m,weather_code,wind_speed_10m'')],
       timeout = 10\<rparr>]"
  using fetch_weather_one_request [of env_network_error SAMPLE_COUNTRY "[]"]
  by (simp add: SAMPLE_COUNTRY_def)

text \<open>
  C7. When \<open>requests.get\<close> raises, when \<open>raise_for_status\<close> raises, or when the body does
  not decode, \<open>fetch_weather\<close> raises a \<open>WeatherServiceError\<close> whose message contains the
  country's name, its capital's name and the text of the underlying exception.
\<close>

theorem fetch_weather_error_message:
  assumes "http_get env sent (weather_request cntry) = Inl cause
     \<or> (\<exists>r. http_get env sent (weather_request cntry) = Inr r
            \<and> raise_for_status r = Some cause)
     \<or> (\<exists>r. http_get env sent (weather_request cntry) = Inr r
            \<and> raise_for_status r = None \<and> json r = Inl cause)"
  shows "\<exists>msg. fst (fetch_weather env cntry sent) = Inl (WeatherServiceError msg)
     \<and> sublist (name cntry) msg \<and> sublist (Country.capital cntry) msg
     \<and> sublist cause msg"
proof -
  have a: "sublist (name cntry) (p @ name cntry @ q)"
    and b: "sublist (Country.capital cntry) (p @ name cntry @ q' @ Country.capital cntry @ q)"
    and c: "sublist cause (p @ name cntry @ q' @ Country.capital cntry @ q'' @ cause)"
    for p q q' q''
      apply (simp add: sublist_def, blast)
     apply (metis append.assoc sublist_appendI)
    apply (metis append.assoc append_Nil2 sublist_appendI)
    done
  show ?thesis
    using assms a b c
    by (auto simp: fetch_weather_def Let_def failed_to_fetch_def invalid_response_def
        simp del: append.simps)
qed

theorem fetch_weather_error_message_witness:
  "\<exists>msg. fst (fetch_weather env_network_error SAMPLE_COUNTRY []) =
       Inl (WeatherServiceError msg)
     \<and> sublist ''TestLand'' msg \<and> sublist ''TestCity'' msg
     \<and> sublist ''Network error'' msg"
  using fetch_weather_error_message
    [of env_network_error "[]" SAMPLE_COUNTRY "''Network error''"]
  by (simp add: env_network_error_def SAMPLE_COUNTRY_def)

text \<open>
  A body without the key \<open>current\<close> is reported in the same way, the cause being the
  missing key as \<open>KeyError\<close> prints it.
\<close>

lemma fetch_weather_missing_current:
  assumes "http_get env sent (weather_request cntry) = Inr r"
    and "raise_for_status r = None" and "json r = Inr (JObj kvs)"
    and "map_of kvs ''current'' = None"
  shows "fst (fetch_weather env cntry sent) = Inl (invalid_response cntry (py_repr ''current''))"
  using assms by (simp add: fetch_weather_def Let_def)

section \<open>Properties of the batch pipeline\<close>

text \<open>
  C6. On the empty list, under any policy, \<open>fetch_weather_batch\<close> returns the empty list
  and the requests made are those made before the call: nothing was fetched.
\<close>

theorem fetch_weather_batch_empty:
  "fetch_weather_batch env [] on_error sent = (Inr [], sent)"
  by (simp add: fetch_weather_batch_def)

theorem fetch_weather_batch_empty_witness:
  "fetch_weather_batch env_network_error [] ''skip'' [] = (Inr [], [])
   \<and> fetch_weather_batch env_network_error [] ''raise'' [] = (Inr [], [])"
  using fetch_weather_batch_empty [of env_network_error "''skip''" "[]"]
    fetch_weather_batch_empty [of env_network_error "''raise''" "[]"]
  by simp

text \<open>
  C9. The policy is compared with \<open>"raise"\<close> and nothing else: under every other string
  the batch returns what it returns under \<open>"skip"\<close> and makes the same requests.
\<close>

theorem fetch_weather_batch_other_policy:
  assumes "on_error \<noteq> ''raise''"
  shows "fetch_weather_batch env countries on_error sent =
     fetch_weather_batch env countries ''skip'' sent"
  using assms batch_loop_policy [of on_error env "[]" countries sent]
  by (simp add: fetch_weather_batch_def)

theorem fetch_weather_batch_other_policy_witness:
  "''RAISE'' \<noteq> ''raise''
   \<and> fetch_weather_batch env_second_fails [SAMPLE_COUNTRY, SAMPLE_COUNTRY] ''RAISE'' [] =
       fetch_weather_batch env_second_fails [SAMPLE_COUNTRY, SAMPLE_COUNTRY] ''skip'' []
   \<and> fetch_weather_batch env_second_fails [SAMPLE_COUNTRY, SAMPLE_COUNTRY] ''skip'' [] =
       (Inr [SAMPLE_WEATHER], [weather_request SAMPLE_COUNTRY, weather_request SAMPLE_COUNTRY])"
proof -
  have n: "''RAISE'' \<noteq> ''raise''" by simp
  have "fetch_weather_batch env_second_fails [SAMPLE_COUNTRY, SAMPLE_COUNTRY] ''skip'' [] =
       (Inr [SAMPLE_WEATHER], [weather_request SAMPLE_COUNTRY, weather_request SAMPLE_COUNTRY])"
    by (simp add: fetch_weather_batch_def fetch_weather_second_fails_first
        fetch_weather_second_fails_later failed_to_fetch_def)
  then show ?thesis
    using n fetch_weather_batch_other_policy [OF n, of env_second_fails
        "[SAMPLE_COUNTRY, SAMPLE_COUNTRY]" "[]"]
    by simp
qed

text \<open>
  C2. Under \<open>"raise"\<close>, let \<open>c\<close> be the first country whose fetch fails: every country of
  \<open>pre\<close> before it was fetched with success, and the fetch of \<open>c\<close> raises \<open>e\<close>. Then the
  batch raises that same \<open>e\<close>, returns no list, and has made one request for each country
  of \<open>pre\<close> and one for \<open>c\<close>, none for the countries of \<open>post\<close> after it.
\<close>

theorem fetch_weather_batch_raise_first_failure:
  assumes "fetch_weather_batch env pre ''raise'' sent = (Inr ws, sent1)"
    and "fetch_weather env c sent1 = (Inl e, sent2)"
  shows "fetch_weather_batch env (pre @ c # post) ''raise'' sent = (Inl e, sent2)
     \<and> sent2 = sent @ map weather_request (pre @ [c])"
proof -
  have "sent1 = sent @ map weather_request pre"
    using assms(1) by (simp add: fetch_weather_batch_def batch_loop_sent_ok)
  moreover have "sent2 = sent1 @ [weather_request c]"
    using fetch_weather_sent [of env c sent1] assms(2) by simp
  ultimately have "sent2 = sent @ map weather_request (pre @ [c])" by simp
  then show ?thesis
    using assms batch_loop_raise_first_failure [of env "[]" pre sent ws sent1 c e sent2 post]
    by (simp add: fetch_weather_batch_def)
qed

theorem fetch_weather_batch_raise_first_failure_witness:
  "fetch_weather_batch env_second_fails [SAMPLE_COUNTRY] ''raise'' [] =
     (Inr [SAMPLE_WEATHER], [weather_request SAMPLE_COUNTRY])
   \<and> fetch_weather env_second_fails SAMPLE_COUNTRY [weather_request SAMPLE_COUNTRY] =
     (Inl (failed_to_fetch SAMPLE_COUNTRY ''Network error''),
      [weather_request SAMPLE_COUNTRY, weather_request SAMPLE_COUNTRY])
   \<and> fetch_weather_batch env_second_fails
       ([SAMPLE_COUNTRY] @ SAMPLE_COUNTRY # [SAMPLE_COUNTRY, SAMPLE_COUNTRY]) ''raise'' [] =
     (Inl (failed_to_fetch SAMPLE_COUNTRY ''Network error''),
      [weather_request SAMPLE_COUNTRY, weather_request SAMPLE_COUNTRY])"
proof -
  have a: "fetch_weather_batch env_second_fails [SAMPLE_COUNTRY] ''raise'' [] =
     (Inr [SAMPLE_WEATHER], [weather_request SAMPLE_COUNTRY])"
    by (simp add: fetch_weather_batch_def fetch_weather_second_fails_first)
  have b: "fetch_weather env_second_fails SAMPLE_COUNTRY [weather_request SAMPLE_COUNTRY] =
     (Inl (failed_to_fetch SAMPLE_COUNTRY ''Network error''),
      [weather_request SAMPLE_COUNTRY, weather_request SAMPLE_COUNTRY])"
    by (simp add: fetch_weather_second_fails_later)
  have c: "fetch_weather_batch env_second_fails
       ([SAMPLE_COUNTRY] @ SAMPLE_COUNTRY # [SAMPLE_COUNTRY, SAMPLE_COUNTRY]) ''raise'' [] =
     (Inl (failed_to_fetch SAMPLE_COUNTRY ''Network error''),
      [weather_request SAMPLE_COUNTRY, weather_request SAMPLE_COUNTRY])"
    using fetch_weather_batch_raise_first_failure [OF a b,
        of "[SAMPLE_COUNTRY, SAMPLE_COUNTRY]"]
    by (rule conjunct1)
  show ?thesis
    using a b c by (intro conjI)
qed

text \<open>
  Every batch under \<open>"raise"\<close> that ends in an exception is of that shape, so the theorem
  covers each list with a failing entry.
\<close>

lemma fetch_weather_batch_raise_decompose:
  assumes "fetch_weather_batch env cs ''raise'' sent = (Inl e, sent')"
  shows "\<exists>pre c post ws sent1. cs = pre @ c # post
     \<and> fetch_weather_batch env pre ''raise'' sent = (Inr ws, sent1)
     \<and> fetch_weather env c sent1 = (Inl e, sent')"
  using assms batch_loop_raise_decompose [of env "[]" cs sent e sent']
  by (simp add: fetch_weather_batch_def)

text \<open>
  C1. The claim is that under \<open>"skip"\<close> the batch returns the readings of the countries
  whose fetch succeeds and never raises. Below, the provider answers with a body whose
  \<open>current\<close> object has no \<open>temperature_2m\<close>: \<open>fetch_weather\<close> lets a \<open>KeyError\<close> out, the
  loop catches only \<open>WeatherServiceError\<close>, and the batch raises under \<open>"skip"\<close>.
\<close>

theorem fetch_weather_batch_skip_raises:
  "fetch_weather_batch (env_with_body MISSING_TEMPERATURE_RESPONSE) [SAMPLE_COUNTRY]
       ''skip'' [] =
     (Inl (KeyError ''temperature_2m''), [weather_request SAMPLE_COUNTRY])"
  by (simp add: fetch_weather_batch_def fetch_weather_missing_temperature)

text \<open>
  What the loop does achieve: it returns a list whenever every failure of a fetch is a
  \<open>WeatherServiceError\<close>, and on the pair of the specification's example (the first
  fetch succeeds, the second fails with a \<open>WeatherServiceError\<close>) that list is the first
  reading alone.
\<close>

lemma fetch_weather_batch_skip_returns:
  assumes "\<And>c sent e. fst (fetch_weather env c sent) = Inl e \<Longrightarrow> \<exists>m. e = WeatherServiceError m"
  shows "\<exists>ws. fst (fetch_weather_batch env countries ''skip'' sent) = Inr ws"
  using batch_loop_skip_returns [of env "''skip''" "[]" countries sent] assms
  by (simp add: fetch_weather_batch_def)

lemma fetch_weather_batch_skip_pair:
  assumes "fetch_weather env a sent = (Inr w, sent1)"
    and "fetch_weather env b sent1 = (Inl (WeatherServiceError m), sent2)"
  shows "fetch_weather_batch env [a, b] ''skip'' sent = (Inr [w], sent2)"
  using assms by (simp add: fetch_weather_batch_def)

section \<open>Properties of \<open>fetch_weather\<close> on malformed readings\<close>

text \<open>
  C3. The claim is that a \<open>current\<close> object with a numeric field missing, or holding a
  value that cannot be coerced, makes \<open>fetch_weather\<close> fail with \<open>WeatherServiceError\<close>.
  The coercions stand after both \<open>try\<close> blocks: with \<open>temperature_2m\<close> missing the call
  raises \<open>KeyError\<close>, and with a humidity of \<open>null\<close> it raises \<open>TypeError\<close>.
\<close>

theorem fetch_weather_malformed_current:
  "fetch_weather (env_with_body MISSING_TEMPERATURE_RESPONSE) SAMPLE_COUNTRY [] =
     (Inl (KeyError ''temperature_2m''), [weather_request SAMPLE_COUNTRY])
   \<and> fetch_weather (env_with_body NULL_HUMIDITY_RESPONSE) SAMPLE_COUNTRY [] =
     (Inl TypeError, [weather_request SAMPLE_COUNTRY])"
  by (simp add: fetch_weather_missing_temperature fetch_weather_null_humidity)

section \<open>Properties of \<open>find_extremes\<close>\<close>

text \<open>
  C10. As stated, for every non-empty list, the claim fails: a temperature or wind speed
  of NaN compares false with everything. What holds: on the empty list \<open>find_extremes\<close>
  returns the four keys, each with \<open>None\<close>. On a non-empty list it returns the four keys
  with elements of the list, and \<open>most_humid\<close> has the greatest \<open>humidity\<close>; when no
  temperature in the list is NaN, \<open>hottest\<close> has the greatest and \<open>coldest\<close> the least
  \<open>temperature_celsius\<close>; when no wind speed is NaN, \<open>windiest\<close> has the greatest
  \<open>wind_speed_kmh\<close>.
\<close>

theorem find_extremes_attained_without_nan:
  "find_extremes [] =
     [(''hottest'', None), (''coldest'', None), (''most_humid'', None), (''windiest'', None)]
   \<and> (weather_list \<noteq> [] \<longrightarrow>
        (\<exists>h c m d.
           find_extremes weather_list =
             [(''hottest'', Some h), (''coldest'', Some c), (''most_humid'', Some m),
              (''windiest'', Some d)]
           \<and> h \<in> set weather_list \<and> c \<in> set weather_list
           \<and> m \<in> set weather_list \<and> d \<in> set weather_list
           \<and> (\<forall>w \<in> set weather_list. humidity w \<le> humidity m)
           \<and> ((\<forall>w \<in> set weather_list. temperature_celsius w \<noteq> NaN) \<longrightarrow>
                (\<forall>w \<in> set weather_list.
                   float_le (temperature_celsius w) (temperature_celsius h))
                \<and> (\<forall>w \<in> set weather_list.
                   float_le (temperature_celsius c) (temperature_celsius w)))
           \<and> ((\<forall>w \<in> set weather_list. wind_speed_kmh w \<noteq> NaN) \<longrightarrow>
                (\<forall>w \<in> set weather_list.
                   float_le (wind_speed_kmh w) (wind_speed_kmh d)))))"
proof (cases weather_list)
  case Nil
  then show ?thesis by simp
next
  case (Cons x xs)
  let ?h = "py_max float_gt temperature_celsius x xs"
  let ?c = "py_min float_lt temperature_celsius x xs"
  let ?m = "py_max (>) humidity x xs"
  let ?d = "py_max float_gt wind_speed_kmh x xs"
  have mem: "?h \<in> set weather_list" "?c \<in> set weather_list"
    "?m \<in> set weather_list" "?d \<in> set weather_list"
    unfolding Cons by (rule py_max_in py_min_in)+
  have hum: "\<forall>w \<in> set weather_list. humidity w \<le> humidity ?m"
    unfolding Cons by (blast intro: py_max_int_ge)
  have temp: "(\<forall>w \<in> set weather_list. temperature_celsius w \<noteq> NaN) \<longrightarrow>
      (\<forall>w \<in> set weather_list. float_le (temperature_celsius w) (temperature_celsius ?h))
      \<and> (\<forall>w \<in> set weather_list. float_le (temperature_celsius ?c) (temperature_celsius w))"
    unfolding Cons by (blast intro: py_max_float_ge py_min_float_le)
  have wind: "(\<forall>w \<in> set weather_list. wind_speed_kmh w \<noteq> NaN) \<longrightarrow>
      (\<forall>w \<in> set weather_list. float_le (wind_speed_kmh w) (wind_speed_kmh ?d))"
    unfolding Cons by (blast intro: py_max_float_ge)
  have eq: "find_extremes weather_list =
     [(''hottest'', Some ?h), (''coldest'', Some ?c), (''most_humid'', Some ?m),
      (''windiest'', Some ?d)]"
    unfolding Cons by simp
  have "\<exists>h c m d.
           find_extremes weather_list =
             [(''hottest'', Some h), (''coldest'', Some c), (''most_humid'', Some m),
              (''windiest'', Some d)]
           \<and> h \<in> set weather_list \<and> c \<in> set weather_list
           \<and> m \<in> set weather_list \<and> d \<in> set weather_list
           \<and> (\<forall>w \<in> set weather_list. humidity w \<le> humidity m)
           \<and> ((\<forall>w \<in> set weather_list. temperature_celsius w \<noteq> NaN) \<longrightarrow>
                (\<forall>w \<in> set weather_list.
                   float_le (temperature_celsius w) (temperature_celsius h))
                \<and> (\<forall>w \<in> set weather_list.
                   float_le (temperature_celsius c) (temperature_celsius w)))
           \<and> ((\<forall>w \<in> set weather_list. wind_speed_kmh w \<noteq> NaN) \<longrightarrow>
                (\<forall>w \<in> set weather_list.
                   float_le (wind_speed_kmh w) (wind_speed_kmh d)))"
    using mem hum temp wind eq by blast
  then show ?thesis by simp
qed

theorem find_extremes_attained_without_nan_witness:
  "\<exists>h c m d.
     find_extremes
       [make_weather ''Cold'' (Finite (- 10)) (Finite 14) 60 (Finite 80),
        make_weather ''Hot'' (Finite 45) (Finite 113) 10 (Finite 5),
        make_weather ''Mild'' (Finite 20) (Finite 68) 95 (Finite 15.5)] =
       [(''hottest'', Some h), (''coldest'', Some c), (''most_humid'', Some m),
        (''windiest'', Some d)]
     \<and> country h = ''Hot'' \<and> country c = ''Cold'' \<and> country m = ''Mild''
     \<and> country d = ''Cold''
     \<and> float_le (Finite 20) (temperature_celsius h)
     \<and> float_le (temperature_celsius c) (Finite 20)
     \<and> float_le (Finite 15.5) (wind_speed_kmh d)"
proof -
  let ?cold = "make_weather ''Cold'' (Finite (- 10)) (Finite 14) 60 (Finite 80)"
  let ?hot = "make_weather ''Hot'' (Finite 45) (Finite 113) 10 (Finite 5)"
  let ?mild = "make_weather ''Mild'' (Finite 20) (Finite 68) 95 (Finite 15.5)"
  let ?ws = "[?cold, ?hot, ?mild]"
  have ne: "?ws \<noteq> []" by simp
  have nt: "\<forall>w \<in> set ?ws. temperature_celsius w \<noteq> NaN"
    by (simp add: make_weather_def)
  have nw: "\<forall>w \<in> set ?ws. wind_speed_kmh w \<noteq> NaN"
    by (simp add: make_weather_def)
  obtain h c m d where e: "find_extremes ?ws =
       [(''hottest'', Some h), (''coldest'', Some c), (''most_humid'', Some m),
        (''windiest'', Some d)]"
    and th: "\<forall>w \<in> set ?ws. float_le (temperature_celsius w) (temperature_celsius h)"
    and tc: "\<forall>w \<in> set ?ws. float_le (temperature_celsius c) (temperature_celsius w)"
    and wd: "\<forall>w \<in> set ?ws. float_le (wind_speed_kmh w) (wind_speed_kmh d)"
    using find_extremes_attained_without_nan [of ?ws] ne nt nw by blast
  have "find_extremes ?ws =
       [(''hottest'', Some ?hot), (''coldest'', Some ?cold), (''most_humid'', Some ?mild),
        (''windiest'', Some ?cold)]"
    by (simp add: py_max_def py_min_def make_weather_def float_gt_def)
  then have n: "country h = ''Hot'' \<and> country c = ''Cold'' \<and> country m = ''Mild''
     \<and> country d = ''Cold''"
    using e by (auto simp: make_weather_def)
  have "float_le (temperature_celsius ?mild) (temperature_celsius h)"
    "float_le (temperature_celsius c) (temperature_celsius ?mild)"
    "float_le (wind_speed_kmh ?mild) (wind_speed_kmh d)"
    using th tc wd by simp_all
  then have b: "float_le (Finite 20) (temperature_celsius h)
     \<and> float_le (temperature_celsius c) (Finite 20)
     \<and> float_le (Finite 15.5) (wind_speed_kmh d)"
    by (simp add: make_weather_def)
  show ?thesis using e n b by blast
qed

text \<open>
  With the NaN reading first, \<open>hottest\<close> and \<open>coldest\<close> are that reading, and its
  temperature is neither at least nor at most the 10 degrees of the other reading.
\<close>

theorem find_extremes_nan_first:
  "find_extremes [NAN_READING, WARM_READING] =
     [(''hottest'', Some NAN_READING), (''coldest'', Some NAN_READING),
      (''most_humid'', Some NAN_READING), (''windiest'', Some NAN_READING)]
   \<and> \<not> float_le (temperature_celsius WARM_READING) (temperature_celsius NAN_READING)
   \<and> \<not> float_le (temperature_celsius NAN_READING) (temperature_celsius WARM_READING)"
  by (simp add: py_max_def py_min_def NAN_READING_def WARM_READING_def make_weather_def
      float_gt_def float_le_def)

end
